theory Spec2Isabelle
  imports Main
begin

unbundle bit_operations_syntax

section \<open>The IoT protocol engine (\<open>IoTProtocol\<close> of iot\_protocol.ts)\<close>

text \<open>
  A shallow embedding of the per-connection protocol engine: the frame encoder (\<open>send\<close> with
  its writer loop \<open>writeBodyPart\<close>), the frame decoder and dispatcher (\<open>onData\<close>), the
  \<open>data\<close> handler (\<open>readClient\<close>) and the alive and buffer-size operations.

  Conventions of the embedding:
  \<^item> a \<open>Buffer\<close> is the list of its bytes; bytes are natural numbers, and every byte the
    encoder stores is reduced \<open>mod 256\<close> as \<open>Buffer.from\<close> does;
  \<^item> a JavaScript string is represented by its UTF-8 bytes, so \<open>Buffer.from(s)\<close> and
    \<open>toString()\<close> are the identity on the representation;
  \<^item> an optional field is an \<open>option\<close> (\<open>None\<close> is \<open>undefined\<close>);
  \<^item> the \<open>headers\<close> object is the list of its own properties in \<open>Object.keys\<close>
    order: the keys that are array indices first, in ascending order, then the other keys
    in the order of their creation;
  \<^item> the tables \<open>requestResponse\<close> and \<open>multiPartControl\<close> are maps; their keys are
    \<open>request.id\<close>, an optional number (\<open>None\<close> is the property name \<open>undefined\<close>);
  \<^item> a thrown exception is \<open>Inl\<close> of an \<open>error\<close>; a send that never resolves is \<open>None\<close>;
  \<^item> socket writes, timer (re)starts and calls of user callbacks are recorded, in order, as a
    list of \<open>event\<close>s; timers are not executed;
  \<^item> \<open>send\<close> is the send that its caller awaits, with nothing else running until it
    resolves; \<open>sendStart\<close> is the part of a send that has run when the call returns its
    promise, which is all that \<open>onData\<close> sees of the sends it does not await.
\<close>

subsection \<open>Constants\<close>

abbreviation (input) IOT_VERSION :: nat where "IOT_VERSION \<equiv> 1"
abbreviation (input) IOT_ETX :: nat where "IOT_ETX \<equiv> 3"
abbreviation (input) IOT_RS :: nat where "IOT_RS \<equiv> 30"
abbreviation (input) IOT_MSCB_ID :: nat where "IOT_MSCB_ID \<equiv> 2"
abbreviation (input) IOT_MSCB_PATH :: nat where "IOT_MSCB_PATH \<equiv> 1"
abbreviation (input) IOT_LSCB_HEADER :: nat where "IOT_LSCB_HEADER \<equiv> 2"
abbreviation (input) IOT_LSCB_BODY :: nat where "IOT_LSCB_BODY \<equiv> 1"
abbreviation (input) IOT_PROTOCOL_DEFAULT_ALIVE_INTERVAL :: nat where
  "IOT_PROTOCOL_DEFAULT_ALIVE_INTERVAL \<equiv> 60"
abbreviation (input) IOT_PROTOCOL_DEFAULT_BUFFER_SIZE :: int where
  "IOT_PROTOCOL_DEFAULT_BUFFER_SIZE \<equiv> 1024"
abbreviation (input) IOT_MULTIPART_TIMEOUT :: nat where "IOT_MULTIPART_TIMEOUT \<equiv> 5000"

text \<open>The numeric enum \<open>EIoTMethod\<close>.\<close>

abbreviation (input) SIGNAL :: nat where "SIGNAL \<equiv> 1"
abbreviation (input) REQUEST :: nat where "REQUEST \<equiv> 2"
abbreviation (input) RESPONSE :: nat where "RESPONSE \<equiv> 3"
abbreviation (input) STREAMING :: nat where "STREAMING \<equiv> 4"
abbreviation (input) ALIVE_REQUEST :: nat where "ALIVE_REQUEST \<equiv> 5"
abbreviation (input) ALIVE_RESPONSE :: nat where "ALIVE_RESPONSE \<equiv> 6"
abbreviation (input) BUFFER_SIZE_REQUEST :: nat where "BUFFER_SIZE_REQUEST \<equiv> 7"
abbreviation (input) BUFFER_SIZE_RESPONSE :: nat where "BUFFER_SIZE_RESPONSE \<equiv> 8"

subsection \<open>JavaScript numbers and the Buffer operations the engine uses\<close>

type_synonym Buffer = "nat list"
type_synonym jsstring = "nat list"

text \<open>The bytes of an ASCII string literal.\<close>

definition ascii :: "string \<Rightarrow> jsstring" where
  "ascii s = map of_char s"

datatype error = RangeError | TooManyHeaders | PathAndHeadersTooBig

text \<open>A number that may be \<open>NaN\<close> (only \<open>bufferSize\<close> can become one).\<close>

datatype jsnum = NaN | Num int

fun subNum :: "jsnum \<Rightarrow> int \<Rightarrow> jsnum" where
  "subNum NaN k = NaN"
| "subNum (Num n) k = Num (n - k)"

text \<open>\<open>x > y\<close> for a number \<open>x\<close>: false when \<open>y\<close> is \<open>NaN\<close>.\<close>

fun gtNum :: "int \<Rightarrow> jsnum \<Rightarrow> bool" where
  "gtNum x NaN = False"
| "gtNum x (Num y) = (x > y)"

text \<open>\<open>ToInt32\<close>, and \<open>x << k\<close> on a 32-bit signed integer; \<open>undefined << k\<close> is 0.\<close>

definition toInt32 :: "int \<Rightarrow> int" where
  "toInt32 n = (n + 2 ^ 31) mod 2 ^ 32 - 2 ^ 31"

definition shl32 :: "int \<Rightarrow> nat \<Rightarrow> int" where
  "shl32 x k = toInt32 (x * 2 ^ k)"

fun shlByte :: "nat option \<Rightarrow> nat \<Rightarrow> int" where
  "shlByte None k = 0"
| "shlByte (Some v) k = shl32 (int v) k"

text \<open>\<open>buffer[i]\<close>: \<open>undefined\<close> outside the buffer.\<close>

definition byteAt :: "Buffer \<Rightarrow> nat \<Rightarrow> nat option" where
  "byteAt buffer i = (if i < length buffer then Some (buffer ! i) else None)"

text \<open>\<open>buffer.indexOf(value, byteOffset)\<close> for a non-negative offset: the first index at or
  after the offset that holds the value, or -1.\<close>

fun indexFrom :: "nat \<Rightarrow> nat list \<Rightarrow> int \<Rightarrow> int" where
  "indexFrom v [] i = - 1"
| "indexFrom v (x # xs) i = (if x = v then i else indexFrom v xs (i + 1))"

definition indexOf :: "Buffer \<Rightarrow> nat \<Rightarrow> nat \<Rightarrow> int" where
  "indexOf buffer v byteOffset = indexFrom v (drop byteOffset buffer) (int byteOffset)"

text \<open>\<open>buffer.subarray(start, end)\<close>: a negative index counts from the end, both are clamped
  to the buffer, and the result is empty when the end is not after the start.\<close>

definition clampIndex :: "nat \<Rightarrow> int \<Rightarrow> nat" where
  "clampIndex n i = (if i < 0 then nat (max 0 (int n + i)) else min (nat i) n)"

definition subarray :: "Buffer \<Rightarrow> int \<Rightarrow> int \<Rightarrow> Buffer" where
  "subarray buffer start end' =
     (let s = clampIndex (length buffer) start; e = clampIndex (length buffer) end'
      in take (e - s) (drop s buffer))"

text \<open>The checked reads and writes: a \<open>RangeError\<close> outside the buffer or the value range.\<close>

definition readUInt8 :: "Buffer \<Rightarrow> nat \<Rightarrow> error + nat" where
  "readUInt8 buffer offset =
     (if offset + 1 \<le> length buffer then Inr (buffer ! offset) else Inl RangeError)"

definition readUInt16BE :: "Buffer \<Rightarrow> nat \<Rightarrow> error + nat" where
  "readUInt16BE buffer offset =
     (if offset + 2 \<le> length buffer
      then Inr (buffer ! offset * 256 + buffer ! (offset + 1)) else Inl RangeError)"

definition writeUInt8 :: "nat \<Rightarrow> error + Buffer" where
  "writeUInt8 v = (if v \<le> 255 then Inr [v] else Inl RangeError)"

definition writeUInt16BE :: "nat \<Rightarrow> error + Buffer" where
  "writeUInt16BE v = (if v \<le> 65535 then Inr [v div 256, v mod 256] else Inl RangeError)"

definition writeUInt32BE :: "nat \<Rightarrow> error + Buffer" where
  "writeUInt32BE v =
     (if v \<le> 4294967295
      then Inr [v div 16777216, v div 65536 mod 256, v div 256 mod 256, v mod 256]
      else Inl RangeError)"

subsection \<open>The data model\<close>

type_synonym headers = "(jsstring \<times> jsstring) list"

text \<open>The array index a property key stands for, if any: the key is the decimal numeral,
  without leading zero, of a number below \<open>2^32 - 1\<close>.\<close>

definition decimal :: "jsstring \<Rightarrow> nat" where
  "decimal k = foldl (\<lambda>n d. 10 * n + (d - 48)) 0 k"

definition arrayIndex :: "jsstring \<Rightarrow> nat option" where
  "arrayIndex k =
     (if k \<noteq> [] \<and> list_all (\<lambda>d. 48 \<le> d \<and> d \<le> 57) k \<and> (hd k \<noteq> 48 \<or> length k = 1)
         \<and> decimal k < 4294967295
      then Some (decimal k) else None)"

text \<open>\<open>headers[key] = value\<close> for a string \<open>value\<close>, on an object created by \<open>{}\<close>. The key
  \<open>__proto__\<close> is an accessor inherited from \<open>Object.prototype\<close>, and its setter ignores a
  string: nothing is stored. The value of an existing key is replaced. A new key that is an
  array index is listed by \<open>Object.keys\<close> before the first key that is not an index or is a
  greater one; any other new key is listed last.\<close>

fun replaceValue :: "headers \<Rightarrow> jsstring \<Rightarrow> jsstring \<Rightarrow> headers" where
  "replaceValue [] k v = []"
| "replaceValue ((k', v') # hs) k v =
     (if k' = k then (k, v) # hs else (k', v') # replaceValue hs k v)"

fun insertIndex :: "headers \<Rightarrow> nat \<Rightarrow> jsstring \<Rightarrow> jsstring \<Rightarrow> headers" where
  "insertIndex [] n k v = [(k, v)]"
| "insertIndex ((k', v') # hs) n k v =
     (case arrayIndex k' of
        Some m \<Rightarrow> if m < n then (k', v') # insertIndex hs n k v else (k, v) # (k', v') # hs
      | None \<Rightarrow> (k, v) # (k', v') # hs)"

definition assign :: "headers \<Rightarrow> jsstring \<Rightarrow> jsstring \<Rightarrow> headers" where
  "assign hs k v =
     (if k = ascii ''__proto__'' then hs
      else if k \<in> set (map fst hs) then replaceValue hs k v
      else case arrayIndex k of
             Some n \<Rightarrow> insertIndex hs n k v
           | None \<Rightarrow> hs @ [(k, v)])"

record IoTRequest =
  version :: "nat option" method' :: "nat option"
  id' :: "nat option"
  path :: "jsstring option"
  headers :: "headers option"
  body :: "Buffer option"
  bodyLength :: int
  totalBodyLength :: int
  parts :: nat

text \<open>The callbacks of a pending response: the engine's own, or one of the application
  (named by a number).\<close>

datatype OnResponse = onBufferSizeResponse | userOnResponse nat
datatype OnTimeout = onAliveRequestTimeout | userOnTimeout nat

record IoTRequestResponse =
  onResponse :: "OnResponse option"
  onTimeout :: "OnTimeout option"
  timeout :: "nat option"
  request_rr :: "IoTRequest option"

record IoTMultiPart =
  mparts :: nat
  received :: int
  mtimeout :: nat

record IoTClient =
  requestResponse :: "nat option \<Rightarrow> IoTRequestResponse option"
  multiPartControl :: "nat option \<Rightarrow> IoTMultiPart option"
  remainBuffer :: "Buffer option"
  lockedForWrite :: bool
  aliveInterval :: nat
  bufferSize :: jsnum

text \<open>What the engine reads from its environment: the constructor's \<open>timeout\<close>, the
  successive readings of the clock in \<open>generateRequestId\<close>, and the two bytes that
  \<open>Buffer.allocUnsafe(2)\<close> hands out for the body length.\<close>

record Env =
  defaultTimeout :: nat
  clock :: "nat list"
  allocUnsafe2 :: "nat \<times> nat"

datatype event =
    Write Buffer
  | Middleware IoTRequest
  | OnResponseCalled OnResponse IoTRequest
  | ScheduleNextAliveRequest
  | StartRequestResponseTimeout "nat option"
  | MultiPartTimeout "nat option"
  | SendRejected error

text \<open>The state \<open>listen\<close> sets up for a connection that gave no \<open>aliveInterval\<close> and no
  \<open>bufferSize\<close>.\<close>

definition listenClient :: IoTClient where
  "listenClient =
     \<lparr> requestResponse = (\<lambda>_. None), multiPartControl = (\<lambda>_. None), remainBuffer = None,
       lockedForWrite = False, aliveInterval = IOT_PROTOCOL_DEFAULT_ALIVE_INTERVAL,
       bufferSize = Num IOT_PROTOCOL_DEFAULT_BUFFER_SIZE \<rparr>"

subsection \<open>\<open>send\<close>: the encoder and the writer loop\<close>

text \<open>\<open>generateRequestId\<close>: the clock modulo 10000, again while the id is 0 or in flight. A
  list of readings that all collide stands for the recursion that exhausts the call stack.\<close>

fun generateRequestId :: "nat list \<Rightarrow> IoTClient \<Rightarrow> nat option" where
  "generateRequestId [] iotClient = None"
| "generateRequestId (t # ts) iotClient =
     (let i = t mod 10000
      in if requestResponse iotClient (Some i) \<noteq> None \<or> i = 0
         then generateRequestId ts iotClient else Some i)"

text \<open>A value in a condition: \<open>undefined\<close>, 0 and the empty string are false, a Buffer is
  true.\<close>

definition truthyNum :: "nat option \<Rightarrow> bool" where
  "truthyNum x = (case x of None \<Rightarrow> False | Some n \<Rightarrow> n \<noteq> 0)"

definition truthyStr :: "jsstring option \<Rightarrow> bool" where
  "truthyStr x = (case x of None \<Rightarrow> False | Some s \<Rightarrow> s \<noteq> [])"

definition keysLength :: "headers option \<Rightarrow> nat" where
  "keysLength h = (case h of None \<Rightarrow> 0 | Some hs \<Rightarrow> length hs)"

definition methodNum :: "IoTRequest \<Rightarrow> nat" where
  "methodNum request = (case method' request of None \<Rightarrow> 0 | Some m \<Rightarrow> m)"

text \<open>The two control bytes as the numbers \<open>send\<close> computes (lines 432--470).\<close>

definition sendLSCB :: "IoTRequest \<Rightarrow> int" where
  "sendLSCB request =
     shl32 (int (methodNum request)) 2
     + ((if keysLength (headers request) > 0 then int IOT_LSCB_HEADER else 0)
        + (if body request \<noteq> None then int IOT_LSCB_BODY else 0))"

definition sendMSCB :: "IoTRequest \<Rightarrow> int" where
  "sendMSCB request =
     (let v = (if truthyNum (version request) then the (version request) else IOT_VERSION);
          MSCB = shl32 (int v) 2;
          p = (if truthyStr (path request) then int IOT_MSCB_PATH else 0)
      in if method' request = Some SIGNAL then MSCB + p
         else if method' request = Some REQUEST then MSCB + (int IOT_MSCB_ID + p)
         else if method' request = Some RESPONSE then MSCB + int IOT_MSCB_ID
         else if method' request = Some STREAMING then MSCB + (int IOT_MSCB_ID + p)
         else MSCB)"

text \<open>\<open>bodyLengthBuffer\<close> as the \<open>switch\<close> leaves it (lines 435--470); it is only used when
  the request has a body.\<close>

definition bodyLengthBuffer :: "Env \<Rightarrow> IoTRequest \<Rightarrow> error + Buffer" where
  "bodyLengthBuffer env request =
     (case body request of
        None \<Rightarrow> Inr []
      | Some b \<Rightarrow>
         (if method' request = Some SIGNAL then writeUInt8 (length b)
          else if method' request = Some REQUEST then writeUInt16BE (length b)
          else if method' request = Some RESPONSE then writeUInt16BE (length b)
          else if method' request = Some STREAMING then writeUInt32BE (length b)
          else if method' request = Some ALIVE_REQUEST \<or> method' request = Some ALIVE_RESPONSE
            then Inr []
          else if method' request = Some BUFFER_SIZE_REQUEST
                  \<or> method' request = Some BUFFER_SIZE_RESPONSE then writeUInt8 (length b)
          else Inr [fst (allocUnsafe2 env), snd (allocUnsafe2 env)]))"

text \<open>The id bytes and the id the request ends up with (lines 474--481).\<close>

definition idBuffer :: "Env \<Rightarrow> IoTClient \<Rightarrow> IoTRequest \<Rightarrow> error + (nat option \<times> Buffer)" where
  "idBuffer env iotClient request =
     (if sendMSCB request AND int IOT_MSCB_ID \<noteq> 0 then
        (case (if truthyNum (id' request) then id' request
               else generateRequestId (clock env) iotClient) of
           None \<Rightarrow> Inl RangeError
         | Some i \<Rightarrow> (case writeUInt16BE i of Inl e \<Rightarrow> Inl e | Inr bs \<Rightarrow> Inr (Some i, bs)))
      else Inr (id' request, []))"

definition pathBuffer :: "IoTRequest \<Rightarrow> Buffer" where
  "pathBuffer request =
     (if sendMSCB request AND int IOT_MSCB_PATH \<noteq> 0 then the (path request) @ [IOT_ETX] else [])"

definition headerBytes :: "jsstring \<times> jsstring \<Rightarrow> Buffer" where
  "headerBytes kv = fst kv @ [IOT_RS] @ snd kv @ [IOT_ETX]"

definition headerBuffer :: "IoTRequest \<Rightarrow> error + Buffer" where
  "headerBuffer request =
     (if sendLSCB request AND int IOT_LSCB_HEADER \<noteq> 0 then
        (let headersKeys = the (headers request)
         in if length headersKeys > 255 then Inl TooManyHeaders
            else Inr ([length headersKeys] @ concat (map headerBytes headersKeys)))
      else Inr [])"

text \<open>Lines 428--521: the request with its version and id filled in, \<open>prefixDataBuffer\<close> and
  \<open>bodyBuffer\<close>; or the exception thrown on the way.\<close>

definition prefixData :: "Env \<Rightarrow> IoTClient \<Rightarrow> IoTRequest \<Rightarrow> error + (IoTRequest \<times> Buffer \<times> Buffer)" where
  "prefixData env iotClient request0 =
     (let request = (if truthyNum (version request0) then request0
                     else request0\<lparr>version := Some IOT_VERSION\<rparr>)
      in case bodyLengthBuffer env request of Inl e \<Rightarrow> Inl e | Inr lengthBytes \<Rightarrow>
         (case idBuffer env iotClient request of Inl e \<Rightarrow> Inl e | Inr (i, idBytes) \<Rightarrow>
         (case headerBuffer request of Inl e \<Rightarrow> Inl e | Inr headerBytes' \<Rightarrow>
            if gtNum (int (length (pathBuffer request) + length headerBytes'))
                 (subNum (bufferSize iotClient) 8)
            then Inl PathAndHeadersTooBig
            else
              (let controlBytes = [nat (sendMSCB request mod 256), nat (sendLSCB request mod 256)];
                   bodyBuffer = (if sendLSCB request AND int IOT_LSCB_BODY \<noteq> 0
                                 then the (body request) else []);
                   lengthBytes' = (if sendLSCB request AND int IOT_LSCB_BODY \<noteq> 0
                                   then lengthBytes else [])
               in Inr (request\<lparr>id' := i\<rparr>,
                       controlBytes @ idBytes @ pathBuffer request @ headerBytes' @ lengthBytes',
                       bodyBuffer)))))"

text \<open>\<open>writeBodyPart\<close> (lines 533--562). The events written so far are accumulated; the
  result is the events and the number of parts.\<close>

definition bodyUntilIndex :: "jsnum \<Rightarrow> Buffer \<Rightarrow> Buffer \<Rightarrow> int \<Rightarrow> int" where
  "bodyUntilIndex bsize prefixDataBuffer bodyBuffer i =
     (let bodyBufferRemain = int (length bodyBuffer) - i
      in case bsize of
           NaN \<Rightarrow> i + bodyBufferRemain
         | Num n \<Rightarrow>
            if bodyBufferRemain + int (length prefixDataBuffer) > n
            then i + (n - int (length prefixDataBuffer))
            else i + bodyBufferRemain)"

partial_function (option) writeBodyPart ::
  "jsnum \<Rightarrow> Buffer \<Rightarrow> Buffer \<Rightarrow> int \<Rightarrow> nat \<Rightarrow> event list \<Rightarrow> (event list \<times> nat) option" where
  "writeBodyPart bsize prefixDataBuffer bodyBuffer i n evs =
     (if bodyUntilIndex bsize prefixDataBuffer bodyBuffer i \<ge> int (length bodyBuffer)
      then Some (evs @ (if n > 1 then [ScheduleNextAliveRequest] else [])
                   @ [Write (prefixDataBuffer
                        @ subarray bodyBuffer i (bodyUntilIndex bsize prefixDataBuffer bodyBuffer i))],
                 n + 1)
      else writeBodyPart bsize prefixDataBuffer bodyBuffer
             (bodyUntilIndex bsize prefixDataBuffer bodyBuffer i) (n + 1)
             (evs @ (if n > 1 then [ScheduleNextAliveRequest] else [])
                @ [Write (prefixDataBuffer
                     @ subarray bodyBuffer i (bodyUntilIndex bsize prefixDataBuffer bodyBuffer i))]))"

declare writeBodyPart.simps [code]

text \<open>\<open>send\<close> (lines 426--578), awaited: an exception of the encoder, or, after the
  descriptor of the response is stored, the outcome of the writer loop: the connection,
  the request with its \<open>parts\<close>, and the events. A send that finds \<open>lockedForWrite\<close> set
  polls it every \<open>delay\<close> milliseconds; with nothing else running it never returns. The
  lock is taken for the writer loop and released after it, so a send that returns leaves it
  as it found it.\<close>

definition pending :: "Env \<Rightarrow> IoTRequest \<Rightarrow> IoTRequestResponse \<Rightarrow> IoTRequestResponse" where
  "pending env request' rr =
     rr\<lparr>timeout := (if truthyNum (timeout rr) then timeout rr else Some (defaultTimeout env)),
        request_rr := Some request'\<rparr>"

definition send ::
  "Env \<Rightarrow> IoTClient \<Rightarrow> IoTRequest \<Rightarrow> IoTRequestResponse option
     \<Rightarrow> error + (IoTClient \<times> IoTRequest \<times> event list) option" where
  "send env iotClient request0 requestResponse0 =
     (case prefixData env iotClient request0 of
        Inl e \<Rightarrow> Inl e
      | Inr (request', prefixDataBuffer, bodyBuffer) \<Rightarrow>
         (let client1 =
                (case requestResponse0 of
                   None \<Rightarrow> iotClient
                 | Some rr \<Rightarrow>
                    iotClient\<lparr>requestResponse :=
                      (requestResponse iotClient)(id' request' \<mapsto> pending env request' rr)\<rparr>)
          in Inr (if lockedForWrite client1 then None
                  else case writeBodyPart (bufferSize client1) prefixDataBuffer bodyBuffer 0 0 []
                       of
                         None \<Rightarrow> None
                       | Some (evs, n) \<Rightarrow>
                          Some (client1, request'\<lparr>parts := n\<rparr>,
                                evs @ (if requestResponse client1 (id' request') \<noteq> None
                                       then [StartRequestResponseTimeout (id' request')]
                                       else [])))))"

text \<open>The part of \<open>send\<close> that has run when the call returns its promise (lines 426--567
  and the first pass through lines 533--547): the exception of the encoder, or the
  descriptor stored and, when the lock is free, the lock taken and the first write issued.
  What follows the callback of that write (the further parts, the release of the lock, the
  restart of the response timeout) runs after the caller has gone on.\<close>

definition sendStart ::
  "Env \<Rightarrow> IoTClient \<Rightarrow> IoTRequest \<Rightarrow> IoTRequestResponse option
     \<Rightarrow> error + (IoTClient \<times> event list)" where
  "sendStart env iotClient request0 requestResponse0 =
     (case prefixData env iotClient request0 of
        Inl e \<Rightarrow> Inl e
      | Inr (request', prefixDataBuffer, bodyBuffer) \<Rightarrow>
         (let client1 =
                (case requestResponse0 of
                   None \<Rightarrow> iotClient
                 | Some rr \<Rightarrow>
                    iotClient\<lparr>requestResponse :=
                      (requestResponse iotClient)(id' request' \<mapsto> pending env request' rr)\<rparr>)
          in if lockedForWrite client1 then Inr (client1, [])
             else Inr (client1\<lparr>lockedForWrite := True\<rparr>,
                       [Write (prefixDataBuffer
                          @ subarray bodyBuffer 0
                              (bodyUntilIndex (bufferSize client1) prefixDataBuffer bodyBuffer 0))])))"

text \<open>The object \<open>{ iotClient }\<close>, and the public operations.\<close>

definition emptyRequest :: IoTRequest where
  "emptyRequest =
     \<lparr> version = None, method' = None, id' = None, path = None, headers = None, body = None,
       bodyLength = 0, totalBodyLength = 0, parts = 0 \<rparr>"

definition signal :: "Env \<Rightarrow> IoTClient \<Rightarrow> IoTRequest
    \<Rightarrow> error + (IoTClient \<times> IoTRequest \<times> event list) option" where
  "signal env iotClient request' = send env iotClient (request'\<lparr>method' := Some SIGNAL\<rparr>) None"

definition request :: "Env \<Rightarrow> IoTClient \<Rightarrow> IoTRequest \<Rightarrow> IoTRequestResponse option
    \<Rightarrow> error + (IoTClient \<times> IoTRequest \<times> event list) option" where
  "request env iotClient request' rr =
     send env iotClient (request'\<lparr>method' := Some REQUEST\<rparr>) rr"

definition response :: "Env \<Rightarrow> IoTClient \<Rightarrow> IoTRequest
    \<Rightarrow> error + (IoTClient \<times> IoTRequest \<times> event list) option" where
  "response env iotClient request' = send env iotClient (request'\<lparr>method' := Some RESPONSE\<rparr>) None"

definition streaming :: "Env \<Rightarrow> IoTClient \<Rightarrow> IoTRequest \<Rightarrow> IoTRequestResponse option
    \<Rightarrow> error + (IoTClient \<times> IoTRequest \<times> event list) option" where
  "streaming env iotClient request' rr =
     send env iotClient (request'\<lparr>method' := Some STREAMING\<rparr>) rr"


definition aliveResponse :: "Env \<Rightarrow> IoTClient \<Rightarrow> IoTRequest
    \<Rightarrow> error + (IoTClient \<times> IoTRequest \<times> event list) option" where
  "aliveResponse env iotClient request' =
     send env iotClient
       (request'\<lparr>method' := Some ALIVE_RESPONSE, id' := Some 0, path := None, headers := None,
          body := None, bodyLength := 0, parts := 0\<rparr>) None"

definition bufferSizeRequest :: "Env \<Rightarrow> IoTClient \<Rightarrow> nat
    \<Rightarrow> error + (IoTClient \<times> IoTRequest \<times> event list) option" where
  "bufferSizeRequest env iotClient bsize =
     (case writeUInt32BE bsize of
        Inl e \<Rightarrow> Inl e
      | Inr body' \<Rightarrow>
         send env iotClient
           (emptyRequest\<lparr>method' := Some BUFFER_SIZE_REQUEST, body := Some body'\<rparr>)
           (Some \<lparr> onResponse = Some onBufferSizeResponse, onTimeout = None, timeout = None,
                   request_rr = None \<rparr>))"

definition bufferSizeResponse :: "Env \<Rightarrow> IoTClient \<Rightarrow> IoTRequest
    \<Rightarrow> error + (IoTClient \<times> IoTRequest \<times> event list) option" where
  "bufferSizeResponse env iotClient request' =
     send env iotClient
       (emptyRequest\<lparr>method' := Some BUFFER_SIZE_RESPONSE, id' := id' request',
          body := body request'\<rparr>) None"

text \<open>\<open>aliveResponse\<close> and \<open>bufferSizeResponse\<close> as \<open>onData\<close> calls them, without awaiting
  the promise.\<close>

definition aliveResponseStart :: "Env \<Rightarrow> IoTClient \<Rightarrow> IoTRequest
    \<Rightarrow> error + (IoTClient \<times> event list)" where
  "aliveResponseStart env iotClient request' =
     sendStart env iotClient
       (request'\<lparr>method' := Some ALIVE_RESPONSE, id' := Some 0, path := None, headers := None,
          body := None, bodyLength := 0, parts := 0\<rparr>) None"

definition bufferSizeResponseStart :: "Env \<Rightarrow> IoTClient \<Rightarrow> IoTRequest
    \<Rightarrow> error + (IoTClient \<times> event list)" where
  "bufferSizeResponseStart env iotClient request' =
     sendStart env iotClient
       (emptyRequest\<lparr>method' := Some BUFFER_SIZE_RESPONSE, id' := id' request',
          body := body request'\<rparr>) None"

subsection \<open>\<open>onData\<close>: the decoder and the dispatch\<close>

text \<open>The id (lines 205--209), from offset 1: the id and the new offset.\<close>

definition decodeId :: "Buffer \<Rightarrow> nat \<Rightarrow> error + (nat \<times> nat)" where
  "decodeId buffer MSCB =
     (if MSCB AND IOT_MSCB_ID \<noteq> 0 \<and> length buffer \<ge> 1 + 2 then
        (case readUInt16BE buffer 2 of Inl e \<Rightarrow> Inl e | Inr i \<Rightarrow> Inr (i, 3))
      else Inr (0, 1))"

text \<open>The path (lines 211--218).\<close>

definition decodePath :: "Buffer \<Rightarrow> nat \<Rightarrow> nat \<Rightarrow> jsstring option \<times> nat" where
  "decodePath buffer MSCB offset =
     (if MSCB AND IOT_MSCB_PATH \<noteq> 0 then
        (let indexEXT = indexOf buffer IOT_ETX (offset + 1)
         in if indexEXT > - 1
            then (Some (subarray buffer (int (offset + 1)) indexEXT), nat indexEXT)
            else (None, offset + 1))
      else (None, offset))"

text \<open>The headers (lines 220--242). The loop, from the offset after the header count.\<close>

function headerLoop :: "Buffer \<Rightarrow> nat \<Rightarrow> nat \<Rightarrow> headers \<Rightarrow> nat \<times> headers" where
  "headerLoop buffer headerSize offset hs =
     (let indexKeyValue = indexOf buffer IOT_RS offset;
          indexEXT = indexOf buffer IOT_ETX (offset + 1)
      in if indexKeyValue \<noteq> 0 \<and> indexEXT \<noteq> - 1 \<and> indexKeyValue < indexEXT - 1 then
           (let hs' = assign hs (subarray buffer (int offset) indexKeyValue)
                        (subarray buffer (indexKeyValue + 1) indexEXT)
            in if length hs' = headerSize then (nat (indexEXT + 1), hs')
               else headerLoop buffer headerSize (nat (indexEXT + 1)) hs')
         else (offset, hs))"
  by pat_completeness auto

termination headerLoop
proof (relation "measure (\<lambda>(buffer, headerSize, offset, hs). Suc (length buffer) - offset)")
  show "wf (measure (\<lambda>(buffer, headerSize, offset, hs). Suc (length buffer) - offset))"
    by simp
next
  fix buffer :: Buffer and headerSize offset :: nat and hs :: headers
    and indexKeyValue indexEXT :: int and hs' :: headers
  assume found: "indexEXT = indexOf buffer IOT_ETX (offset + 1)"
    "indexKeyValue \<noteq> 0 \<and> indexEXT \<noteq> - 1 \<and> indexKeyValue < indexEXT - 1"
  have range: "indexFrom v xs i = - 1
      \<or> (i \<le> indexFrom v xs i \<and> indexFrom v xs i < i + int (length xs))" for v xs i
    by (induction xs arbitrary: i) (auto, force+)
  from found range [of IOT_ETX "drop (offset + 1) buffer" "int (offset + 1)"]
  have "int (offset + 1) \<le> indexEXT" and "indexEXT < int (length buffer)"
    by (auto simp: indexOf_def)
  then show "((buffer, headerSize, nat (indexEXT + 1), hs'), (buffer, headerSize, offset, hs))
        \<in> measure (\<lambda>(buffer, headerSize, offset, hs). Suc (length buffer) - offset)"
    by auto
qed

declare headerLoop.simps [simp del]

definition decodeHeaders :: "Buffer \<Rightarrow> nat \<Rightarrow> nat \<Rightarrow> error + (headers option \<times> nat)" where
  "decodeHeaders buffer LSCB offset =
     (if LSCB AND IOT_LSCB_HEADER \<noteq> 0 then
        (case readUInt8 buffer (offset + 1) of
           Inl e \<Rightarrow> Inl e
         | Inr headerSize \<Rightarrow>
            (case headerLoop buffer headerSize (offset + 2) [] of
               (offset', hs) \<Rightarrow> Inr (Some hs, offset' - 1)))
      else Inr (None, offset))"

text \<open>The body (lines 244--321). The width of the length field, and the length read
  big-endian from the bytes after the offset.\<close>

definition bodyLengthSize :: "nat option \<Rightarrow> nat" where
  "bodyLengthSize m =
     (if m = Some SIGNAL \<or> m = Some BUFFER_SIZE_REQUEST \<or> m = Some BUFFER_SIZE_RESPONSE then 1
      else if m = Some STREAMING then 4 else 2)"

fun readBodyLength :: "Buffer \<Rightarrow> nat \<Rightarrow> nat \<Rightarrow> int" where
  "readBodyLength buffer offset 0 = 0"
| "readBodyLength buffer offset (Suc i) =
     shlByte (byteAt buffer (offset + 1)) (i * 8) + readBodyLength buffer (offset + 1) i"

definition decodeBody ::
  "IoTClient \<Rightarrow> Buffer \<Rightarrow> IoTRequest \<Rightarrow> nat \<Rightarrow> IoTRequest \<times> bool \<times> IoTClient \<times> event list" where
  "decodeBody iotClient buffer request' offset0 =
     (let total = readBodyLength buffer offset0 (bodyLengthSize (method' request'));
          offset = offset0 + bodyLengthSize (method' request') + 1;
          bodyIncomeLength = int (length buffer) - int offset;
          existing = multiPartControl iotClient (id' request');
          control = (case existing of
                       Some m \<Rightarrow> m
                     | None \<Rightarrow> \<lparr> mparts = 0, received = 0, mtimeout = IOT_MULTIPART_TIMEOUT \<rparr>);
          bodyEndIndex1 = (case existing of
                             Some m \<Rightarrow> int offset + total - received m
                           | None \<Rightarrow> int offset + total);
          bodyEndIndex = (if bodyEndIndex1 > int (length buffer) then int (length buffer)
                          else bodyEndIndex1);
          control' = control\<lparr> mparts := mparts control + 1,
                       received := received control + (bodyEndIndex - int offset),
                       mtimeout := IOT_MULTIPART_TIMEOUT \<rparr>;
          requestCompleted = (\<not> received control' < total)
      in (request'\<lparr> bodyLength := bodyEndIndex - int offset, totalBodyLength := total,
                    body := Some (subarray buffer (int offset) bodyEndIndex) \<rparr>,
          requestCompleted,
          iotClient\<lparr> multiPartControl :=
                       (if requestCompleted then (multiPartControl iotClient)(id' request' := None)
                        else (multiPartControl iotClient)(id' request' \<mapsto> control')),
                     remainBuffer :=
                       (if bodyIncomeLength > bodyEndIndex - int offset
                        then Some (subarray buffer bodyEndIndex (int (length buffer)))
                        else remainBuffer iotClient) \<rparr>,
          [MultiPartTimeout (id' request')]))"

text \<open>Lines 171--321 for a buffer of at least two bytes whose method is not
  \<open>ALIVE_REQUEST\<close>: the request, \<open>requestCompleted\<close>, the connection and the events.\<close>

definition decode :: "IoTClient \<Rightarrow> Buffer \<Rightarrow> error + (IoTRequest \<times> bool \<times> IoTClient \<times> event list)" where
  "decode iotClient buffer =
     (let MSCB = buffer ! 0; LSCB = buffer ! 1
      in case decodeId buffer MSCB of
           Inl e \<Rightarrow> Inl e
         | Inr (i, offset1) \<Rightarrow>
            (case decodeHeaders buffer LSCB (snd (decodePath buffer MSCB offset1)) of
               Inl e \<Rightarrow> Inl e
             | Inr (h, offset3) \<Rightarrow>
                (let request' = \<lparr> version = Some (MSCB div 4), method' = Some (LSCB div 4),
                                  id' = Some i, path = fst (decodePath buffer MSCB offset1),
                                  headers = h, body = Some [], bodyLength = 0,
                                  totalBodyLength = 0, parts = 0 \<rparr>
                 in if LSCB AND IOT_LSCB_BODY \<noteq> 0
                    then Inr (decodeBody iotClient buffer request' offset3)
                    else Inr (request', True, iotClient, []))))"

text \<open>\<open>onBufferSizeResponse\<close> (lines 110--113) and the buffer size read from a body.\<close>

definition bufferSizeOf :: "Buffer \<Rightarrow> jsnum" where
  "bufferSizeOf b =
     (case byteAt b 3 of
        None \<Rightarrow> NaN
      | Some b3 \<Rightarrow>
         Num (shlByte (byteAt b 0) 24 + shlByte (byteAt b 1) 16 + shlByte (byteAt b 2) 8 + int b3))"

definition callOnResponse :: "OnResponse \<Rightarrow> IoTClient \<Rightarrow> IoTRequest \<Rightarrow> IoTClient" where
  "callOnResponse cb iotClient response' =
     (case cb of
        onBufferSizeResponse \<Rightarrow>
          if method' response' \<noteq> Some BUFFER_SIZE_RESPONSE then iotClient
          else iotClient\<lparr>bufferSize := bufferSizeOf (the (body response'))\<rparr>
      | userOnResponse _ \<Rightarrow> iotClient)"

text \<open>Lines 323--341: the pending response of the id, or the middleware chain.\<close>

definition dispatch :: "IoTClient \<Rightarrow> IoTRequest \<Rightarrow> bool \<Rightarrow> IoTClient \<times> event list" where
  "dispatch iotClient request' requestCompleted =
     (case requestResponse iotClient (id' request') of
        Some rr \<Rightarrow>
          (let called = (case onResponse rr of
                           None \<Rightarrow> (iotClient, [])
                         | Some cb \<Rightarrow> (callOnResponse cb iotClient request',
                                      [OnResponseCalled cb request']))
           in if requestCompleted
              then ((fst called)\<lparr>requestResponse :=
                       (requestResponse (fst called))(id' request' := None)\<rparr>, snd called)
              else (fst called, snd called @ [StartRequestResponseTimeout (id' request')]))
      | None \<Rightarrow>
          (iotClient,
           if method' request' = Some SIGNAL \<or> method' request' = Some REQUEST
              \<or> method' request' = Some STREAMING
           then [Middleware request'] else []))"

text \<open>A send whose promise nobody awaits: a rejection does not reach the caller.\<close>

definition unawaited :: "IoTClient \<Rightarrow> error + (IoTClient \<times> event list) \<Rightarrow> IoTClient \<times> event list" where
  "unawaited iotClient r =
     (case r of
        Inl e \<Rightarrow> (iotClient, [SendRejected e])
      | Inr (c, evs) \<Rightarrow> (c, evs))"

definition onData :: "Env \<Rightarrow> IoTClient \<Rightarrow> Buffer \<Rightarrow> error + (IoTClient \<times> event list)" where
  "onData env iotClient buffer =
     (if length buffer < 2 then Inr (iotClient, [])
      else if buffer ! 1 div 4 = ALIVE_REQUEST then
        (let answered = unawaited iotClient (aliveResponseStart env iotClient emptyRequest)
         in Inr (fst answered, snd answered @ [ScheduleNextAliveRequest]))
      else
        (case decode iotClient buffer of
           Inl e \<Rightarrow> Inl e
         | Inr (request', requestCompleted, client1, evs1) \<Rightarrow>
            (let dispatched = dispatch client1 request' requestCompleted;
                 resized =
                   (if method' request' = Some BUFFER_SIZE_REQUEST then
                      (let c = (fst dispatched)\<lparr>bufferSize := bufferSizeOf (the (body request'))\<rparr>
                       in unawaited c (bufferSizeResponseStart env c request'))
                    else (fst dispatched, []))
             in Inr (fst resized,
                     evs1 @ snd dispatched @ [ScheduleNextAliveRequest] @ snd resized))))"

text \<open>The \<open>data\<close> handler that \<open>readClient\<close> installs (lines 611--620).\<close>

definition readClient :: "Env \<Rightarrow> IoTClient \<Rightarrow> Buffer \<Rightarrow> error + (IoTClient \<times> event list)" where
  "readClient env iotClient buffer =
     (case remainBuffer iotClient of
        None \<Rightarrow> onData env iotClient buffer
      | Some r \<Rightarrow>
         if length r > 0 then onData env (iotClient\<lparr>remainBuffer := None\<rparr>) (r @ buffer)
         else onData env iotClient buffer)"

text \<open>A sequence of \<open>data\<close> events, handled one after the other with no other callback in
  between: the final connection and all events, or the first exception.\<close>

fun readAll :: "Env \<Rightarrow> IoTClient \<Rightarrow> Buffer list \<Rightarrow> error + (IoTClient \<times> event list)" where
  "readAll env iotClient [] = Inr (iotClient, [])"
| "readAll env iotClient (buffer # rest) =
     (case readClient env iotClient buffer of
        Inl e \<Rightarrow> Inl e
      | Inr (c, evs) \<Rightarrow>
         (case readAll env c rest of Inl e \<Rightarrow> Inl e | Inr (c', evs') \<Rightarrow> Inr (c', evs @ evs')))"

subsection \<open>Classifying events, and fixed inputs for the examples\<close>

text \<open>The events a \<open>send\<close> can produce.\<close>

fun sendEvent :: "event \<Rightarrow> bool" where
  "sendEvent (Write w) = True"
| "sendEvent ScheduleNextAliveRequest = True"
| "sendEvent (StartRequestResponseTimeout i) = True"
| "sendEvent e = False"

text \<open>An engine built with the default timeout, and a clock reading.\<close>

definition defaultEnv :: Env where
  "defaultEnv = \<lparr> defaultTimeout = 1000, clock = [1700000000276], allocUnsafe2 = (0, 0) \<rparr>"

subsection \<open>Notions used to state the properties\<close>

text \<open>The buffers a run of \<open>send\<close> hands to \<open>client.write\<close>, in order, and \<open>encode\<close>: the
  writes of a \<open>send\<close> that resolves (nothing when it throws or never returns).\<close>

fun written :: "event list \<Rightarrow> Buffer list" where
  "written [] = []"
| "written (Write w # es) = w # written es"
| "written (e # es) = written es"

definition encode :: "Env \<Rightarrow> IoTClient \<Rightarrow> IoTRequest \<Rightarrow> Buffer list option" where
  "encode env iotClient request' =
     (case send env iotClient request' None of
        Inr (Some (c, r, evs)) \<Rightarrow> Some (written evs)
      | _ \<Rightarrow> None)"




text \<open>The request \<open>onData\<close> builds from the frame of a request: a \<open>SIGNAL\<close> has id 0, an
  empty path or header set is absent, and the lengths are those of the body.\<close>

definition asReceived :: "IoTRequest \<Rightarrow> IoTRequest" where
  "asReceived r1 =
     \<lparr> version = version r1, method' = method' r1,
       id' = (if method' r1 = Some SIGNAL then Some 0 else id' r1),
       path = (if truthyStr (path r1) \<and> method' r1 \<noteq> Some RESPONSE then path r1 else None),
       headers = (if keysLength (headers r1) > 0 then headers r1 else None),
       body = body r1, bodyLength = int (length (the (body r1))),
       totalBodyLength = int (length (the (body r1))), parts = 0 \<rparr>"


text \<open>What \<open>onData\<close> reads of a frame before its body (lines 205--270): the id, the index
  of the first body byte (after the control bytes, the id, the path, the headers and the
  length field) and the length that the field declares.\<close>

definition bodyField :: "Buffer \<Rightarrow> error + (nat \<times> nat \<times> int)" where
  "bodyField buffer =
     (case decodeId buffer (buffer ! 0) of
        Inl e \<Rightarrow> Inl e
      | Inr (i, offset1) \<Rightarrow>
         (case decodeHeaders buffer (buffer ! 1) (snd (decodePath buffer (buffer ! 0) offset1)) of
            Inl e \<Rightarrow> Inl e
          | Inr (h, offset3) \<Rightarrow>
             (let k = bodyLengthSize (Some (buffer ! 1 div 4))
              in Inr (i, offset3 + k + 1, readBodyLength buffer offset3 k))))"

section \<open>Properties\<close>

subsection \<open>Unfolding the model on concrete inputs\<close>

lemmas send_defs = send_def prefixData_def bodyLengthBuffer_def idBuffer_def pathBuffer_def
  headerBuffer_def headerBytes_def sendMSCB_def sendLSCB_def methodNum_def keysLength_def
  truthyNum_def truthyStr_def shl32_def toInt32_def writeUInt8_def writeUInt16BE_def
  writeUInt32BE_def bodyUntilIndex_def subarray_def clampIndex_def pending_def emptyRequest_def
  listenClient_def

lemmas decode_defs = decode_def decodeId_def decodePath_def decodeHeaders_def
  readUInt8_def readUInt16BE_def indexOf_def

lemmas body_defs = decodeBody_def bodyLengthSize_def byteAt_def shl32_def toInt32_def
  subarray_def clampIndex_def Let_def

subsection \<open>The control bytes\<close>

lemma flag1_int: "((a::int) AND 1 \<noteq> 0) = odd a"
  by (simp add: and_one_eq odd_iff_mod_2_eq_one)

lemma flag2_int: "((a::int) AND 2 \<noteq> 0) = odd (a div 2)"
  using and_exp_eq_0_iff_not_bit [of a 1] by (simp add: bit_iff_odd)



text \<open>A shift by two leaves the two flag bits clear, also when it wraps.\<close>

lemma shl32_two: "shl32 x 2 = 4 * ((x + 536870912) mod 1073741824 - 536870912)"
proof -
  have "(x * 4 + 2147483648) mod 4294967296 = (4 * (x + 536870912)) mod (4 * 1073741824)"
    by (simp add: algebra_simps)
  also have "\<dots> = 4 * ((x + 536870912) mod 1073741824)"
    by (rule mult_mod_right [symmetric])
  finally show ?thesis
    by (simp add: shl32_def toInt32_def)
qed

lemma shl32_two_ex: "\<exists>k. shl32 x 2 = 4 * k"
  using shl32_two by blast

lemma flag_bits:
  fixes k :: int
  shows "even (4 * k)" "odd (4 * k + 1)" "even (4 * k + 2)" "odd (4 * k + 3)"
    "even (4 * k div 2)" "even ((4 * k + 1) div 2)" "odd ((4 * k + 2) div 2)"
    "odd ((4 * k + 3) div 2)"
  by presburger+

lemma sendLSCB_header [simp]: "(sendLSCB r AND 2 \<noteq> 0) = (keysLength (headers r) > 0)"
proof -
  obtain k where k: "shl32 (int (methodNum r)) 2 = 4 * k"
    using shl32_two_ex by blast
  show ?thesis
    using flag_bits [of k] by (auto simp: sendLSCB_def k flag2_int)
qed

lemma sendLSCB_body [simp]: "(sendLSCB r AND 1 \<noteq> 0) = (body r \<noteq> None)"
proof -
  obtain k where k: "shl32 (int (methodNum r)) 2 = 4 * k"
    using shl32_two_ex by blast
  show ?thesis
    using flag_bits [of k] by (auto simp: sendLSCB_def k flag1_int)
qed

lemma sendMSCB_id [simp]:
  "(sendMSCB r AND 2 \<noteq> 0)
     = (method' r = Some REQUEST \<or> method' r = Some RESPONSE \<or> method' r = Some STREAMING)"
proof -
  obtain k where k: "shl32 (int (if truthyNum (version r) then the (version r) else 1)) 2 = 4 * k"
    using shl32_two_ex by blast
  show ?thesis
    using flag_bits [of k] k by (auto simp: sendMSCB_def flag2_int Let_def)
qed

lemma sendMSCB_path [simp]:
  "(sendMSCB r AND 1 \<noteq> 0)
     = (truthyStr (path r)
        \<and> (method' r = Some SIGNAL \<or> method' r = Some REQUEST \<or> method' r = Some STREAMING))"
proof -
  obtain k where k: "shl32 (int (if truthyNum (version r) then the (version r) else 1)) 2 = 4 * k"
    using shl32_two_ex by blast
  show ?thesis
    using flag_bits [of k] k by (auto simp: sendMSCB_def flag1_int Let_def)
qed

lemma version_default_same [simp]:
  "sendLSCB (r\<lparr>version := v\<rparr>) = sendLSCB r"
  "pathBuffer (r\<lparr>version := v\<rparr>) = pathBuffer r"
  "headerBuffer (r\<lparr>version := v\<rparr>) = headerBuffer r"
  "bodyLengthBuffer env (r\<lparr>version := v\<rparr>) = bodyLengthBuffer env r"
  by (simp_all add: sendLSCB_def pathBuffer_def headerBuffer_def bodyLengthBuffer_def methodNum_def
        split: option.splits)

lemma idBuffer_version [simp]:
  "idBuffer env c (r\<lparr>version := v\<rparr>) = idBuffer env c r"
  by (simp add: idBuffer_def)

subsection \<open>The writer loop\<close>

lemma writeBodyPart_last:
  "int (length b) \<le> bodyUntilIndex bs p b i \<Longrightarrow>
   writeBodyPart bs p b i n evs =
     Some (evs @ (if n > 1 then [ScheduleNextAliveRequest] else [])
             @ [Write (p @ subarray b i (bodyUntilIndex bs p b i))], n + 1)"
  by (subst writeBodyPart.simps) simp

lemma writeBodyPart_more:
  "bodyUntilIndex bs p b i < int (length b) \<Longrightarrow>
   writeBodyPart bs p b i n evs =
     writeBodyPart bs p b (bodyUntilIndex bs p b i) (n + 1)
       (evs @ (if n > 1 then [ScheduleNextAliveRequest] else [])
          @ [Write (p @ subarray b i (bodyUntilIndex bs p b i))])"
  by (subst writeBodyPart.simps) simp

text \<open>When the prefix alone fills the buffer size, no body byte is ever written: the loop
  has no result.\<close>

lemma writeBodyPart_stuck:
  assumes "writeBodyPart bs p b i n evs = Some y"
  shows "\<not> (bs = Num (int (length p)) \<and> i < int (length b))"
  by (rule writeBodyPart.raw_induct
        [where P = "\<lambda>bs p b i n evs y. \<not> (bs = Num (int (length p)) \<and> i < int (length b))",
         OF _ assms])
     (auto simp: bodyUntilIndex_def split: if_splits)

lemma writeBodyPart_never:
  "i < int (length b) \<Longrightarrow> bs = Num (int (length p)) \<Longrightarrow> writeBodyPart bs p b i n evs = None"
  using writeBodyPart_stuck [of bs p b i n evs] by (cases "writeBodyPart bs p b i n evs") auto

lemma writeBodyPart_events:
  assumes "writeBodyPart bs p b i n evs = Some y"
  shows "(\<forall>e \<in> set evs. sendEvent e) \<longrightarrow> (\<forall>e \<in> set (fst y). sendEvent e)"
proof (rule writeBodyPart.raw_induct
        [where P = "\<lambda>bs p b i n evs y.
                      (\<forall>e \<in> set evs. sendEvent e) \<longrightarrow> (\<forall>e \<in> set (fst y). sendEvent e)",
         OF _ assms], goal_cases)
  case (1 f bs p b i n evs y)
  show ?case
  proof (cases "int (length b) \<le> bodyUntilIndex bs p b i")
    case True
    with 1(2) show ?thesis by auto
  next
    case False
    with 1(2) have "f bs p b (bodyUntilIndex bs p b i) (n + 1)
        (evs @ (if n > 1 then [ScheduleNextAliveRequest] else [])
          @ [Write (p @ subarray b i (bodyUntilIndex bs p b i))]) = Some y"
      by simp
    from 1(1) [OF this] show ?thesis by auto
  qed
qed

subsection \<open>What a send leaves behind\<close>

lemma send_events:
  "send env c r rr = Inr (Some (c', r', evs)) \<Longrightarrow> \<forall>e \<in> set evs. sendEvent e"
  using writeBodyPart_events
  by (fastforce simp: send_def Let_def split: sum.splits prod.splits option.splits if_splits)

lemma send_None_client:
  "send env c r None = Inr (Some (c', r', evs)) \<Longrightarrow> c' = c"
  by (auto simp: send_def Let_def split: sum.splits prod.splits option.splits if_splits)

lemma unawaited_sendStart_state [simp]:
  "requestResponse (fst (unawaited c (sendStart env c r None))) = requestResponse c"
  "multiPartControl (fst (unawaited c (sendStart env c r rr))) = multiPartControl c"
  "remainBuffer (fst (unawaited c (sendStart env c r rr))) = remainBuffer c"
  "bufferSize (fst (unawaited c (sendStart env c r rr))) = bufferSize c"
  by (auto simp: unawaited_def sendStart_def Let_def split: sum.splits prod.splits option.splits)

lemma unawaited_sendStart_events [simp]:
  "Middleware x \<notin> set (snd (unawaited c (sendStart env c r rr)))"
  by (auto simp: unawaited_def sendStart_def Let_def
        split: sum.splits prod.splits option.splits if_splits)

lemma send_never_returns:
  assumes "prefixData env c r = Inr (r', p, b)" and "bufferSize c = Num (int (length p))"
    and "b \<noteq> []"
  shows "send env c r rr = Inr None"
proof -
  have "writeBodyPart (Num (int (length p))) p b 0 0 [] = None"
    using assms(3) by (intro writeBodyPart_never) auto
  then show ?thesis
    using assms(1,2) by (cases rr) (simp_all add: send_def Let_def)
qed

lemma aliveResponseStart_result:
  "aliveResponseStart env c emptyRequest =
     (if gtNum 0 (subNum (bufferSize c) 8) then Inl PathAndHeadersTooBig
      else if lockedForWrite c then Inr (c, [])
      else Inr (c\<lparr>lockedForWrite := True\<rparr>, [Write [0x04, 0x18]]))"
  by (cases "bufferSize c")
     (auto simp add: aliveResponseStart_def sendStart_def send_defs Let_def)

text \<open>An alive request is answered, or the answer is rejected or waits for the lock, and
  the handler returns; the rest of the buffer is neither read nor kept.\<close>

lemma onData_alive_request:
  assumes "2 \<le> length buffer" and "buffer ! 1 div 4 = ALIVE_REQUEST"
  shows "onData env c buffer =
     Inr (if gtNum 0 (subNum (bufferSize c) 8)
          then (c, [SendRejected PathAndHeadersTooBig, ScheduleNextAliveRequest])
          else if lockedForWrite c then (c, [ScheduleNextAliveRequest])
          else (c\<lparr>lockedForWrite := True\<rparr>, [Write [0x04, 0x18], ScheduleNextAliveRequest]))"
  using assms by (simp add: onData_def aliveResponseStart_result unawaited_def)

lemma generateRequestId_fresh:
  "generateRequestId ts c = Some i
   \<Longrightarrow> 0 < i \<and> i < 10000 \<and> requestResponse c (Some i) = None"
  by (induction ts) (auto simp: Let_def split: if_splits)

lemma prefixData_throws:
  "(\<exists>e. prefixData env c r = Inl e) \<longleftrightarrow>
     (\<exists>e. bodyLengthBuffer env r = Inl e) \<or> (\<exists>e. idBuffer env c r = Inl e)
     \<or> (\<exists>e. headerBuffer r = Inl e)
     \<or> (\<exists>h. headerBuffer r = Inr h
            \<and> gtNum (int (length (pathBuffer r) + length h)) (subNum (bufferSize c) 8))"
  by (auto simp: prefixData_def Let_def split: sum.splits prod.splits)

lemma decode_without_body:
  assumes "buffer ! 1 AND 1 = 0" and "decode c buffer = Inr (rq, fin, c1, evs1)"
  shows "body rq = Some [] \<and> fin \<and> c1 = c \<and> evs1 = []
         \<and> method' rq = Some (buffer ! 1 div 4)"
  using assms by (auto simp: decode_def Let_def split: sum.splits prod.splits)

subsection \<open>The wire bytes of a request\<close>

text \<open>
  C5. On a fresh connection (buffer size 1024), \<open>request\<close> with id 276, path \<open>/a\<close>, the
  single header \<open>foo = bar\<close> and body \<open>hi\<close> issues exactly one write, of the bytes
  \<open>07 0B 01 14 '/' 'a' 03 01 'f' 'o' 'o' 1E 'b' 'a' 'r' 03 00 02 'h' 'i'\<close>, and resolves with
  \<open>parts = 1\<close>.
\<close>

theorem request_wire_bytes:
  "request env listenClient
     (emptyRequest\<lparr>id' := Some 276, path := Some (ascii ''/a''),
        headers := Some [(ascii ''foo'', ascii ''bar'')], body := Some (ascii ''hi'')\<rparr>) None
   = Inr (Some (listenClient,
        emptyRequest\<lparr>version := Some 1, method' := Some REQUEST, id' := Some 276,
          path := Some (ascii ''/a''), headers := Some [(ascii ''foo'', ascii ''bar'')],
          body := Some (ascii ''hi''), parts := 1\<rparr>,
        [Write [0x07, 0x0B, 0x01, 0x14, 47, 97, 0x03, 0x01, 102, 111, 111, 0x1E, 98, 97, 114,
                0x03, 0x00, 0x02, 104, 105]]))"
  apply (simp add: request_def send_defs ascii_def)
  apply (subst writeBodyPart.simps)
  apply (simp add: send_defs)
  done

subsection \<open>Rejected sends\<close>

text \<open>
  C4 (as the code has it). \<open>send\<close> throws exactly when one of these holds: the body is
  longer than the length field of the method can express (255 bytes for \<open>SIGNAL\<close> and
  \<open>BUFFER_SIZE_*\<close>, 65535 for \<open>REQUEST\<close> and \<open>RESPONSE\<close>, \<open>2^32 - 1\<close> for
  \<open>STREAMING\<close>); the method carries an id and the id to write is above 65535, or none can
  be generated; there are more than 255 headers; or the encoded path plus headers are longer
  than \<open>bufferSize - 8\<close>. An exception is raised before the pending response is stored and
  before any write, so it leaves the connection as it was. In particular a path plus headers
  of exactly \<open>bufferSize - 8\<close> bytes is accepted and one byte more is rejected.
\<close>

theorem send_throws_iff:
  "(\<exists>e. send env c r rr = Inl e) \<longleftrightarrow>
     (\<exists>b. body r = Some b \<and>
        (if method' r = Some SIGNAL \<or> method' r = Some BUFFER_SIZE_REQUEST
            \<or> method' r = Some BUFFER_SIZE_RESPONSE then length b > 255
         else if method' r = Some REQUEST \<or> method' r = Some RESPONSE then length b > 65535
         else method' r = Some STREAMING \<and> length b > 4294967295))
   \<or> ((method' r = Some REQUEST \<or> method' r = Some RESPONSE \<or> method' r = Some STREAMING)
        \<and> (if truthyNum (id' r) then the (id' r) > 65535
             else generateRequestId (clock env) c = None))
   \<or> keysLength (headers r) > 255
   \<or> (\<exists>h. headerBuffer r = Inr h
          \<and> gtNum (int (length (pathBuffer r) + length h)) (subNum (bufferSize c) 8))"
proof -
  have s: "(\<exists>e. send env c r rr = Inl e) = (\<exists>e. prefixData env c r = Inl e)"
    by (auto simp: send_def Let_def split: sum.splits prod.splits)
  have b: "(\<exists>e. bodyLengthBuffer env r = Inl e) =
     (\<exists>b. body r = Some b \<and>
        (if method' r = Some SIGNAL \<or> method' r = Some BUFFER_SIZE_REQUEST
            \<or> method' r = Some BUFFER_SIZE_RESPONSE then length b > 255
         else if method' r = Some REQUEST \<or> method' r = Some RESPONSE then length b > 65535
         else method' r = Some STREAMING \<and> length b > 4294967295))"
    by (auto simp: bodyLengthBuffer_def writeUInt8_def writeUInt16BE_def writeUInt32BE_def
          split: option.splits)
  have i: "(\<exists>e. idBuffer env c r = Inl e) =
     ((method' r = Some REQUEST \<or> method' r = Some RESPONSE \<or> method' r = Some STREAMING)
        \<and> (if truthyNum (id' r) then the (id' r) > 65535
             else generateRequestId (clock env) c = None))"
    using generateRequestId_fresh [of "clock env" c]
    by (auto simp: idBuffer_def writeUInt16BE_def truthyNum_def split: option.splits)
  have h: "(\<exists>e. headerBuffer r = Inl e) = (keysLength (headers r) > 255)"
    by (auto simp: headerBuffer_def keysLength_def Let_def split: option.splits)
  show ?thesis
    unfolding s prefixData_throws b i h ..
qed

text \<open>The boundary, at the default buffer size: a path of 1015 bytes (1016 with its
  terminator) is accepted, a path of 1016 bytes is rejected.\<close>

theorem send_throws_iff_witness:
  "\<not> (\<exists>e. send defaultEnv listenClient
            (emptyRequest\<lparr>method' := Some REQUEST, id' := Some 1,
               path := Some (replicate 1015 97)\<rparr>) None = Inl e)
   \<and> (\<exists>e. send defaultEnv listenClient
            (emptyRequest\<lparr>method' := Some REQUEST, id' := Some 1,
               path := Some (replicate 1016 97)\<rparr>) None = Inl e)"
  unfolding send_throws_iff
  by (simp add: emptyRequest_def keysLength_def truthyNum_def truthyStr_def headerBuffer_def
        pathBuffer_def listenClient_def)

text \<open>The claim as stated fails: a \<open>SIGNAL\<close> with a body of 256 bytes, no header and no
  path is rejected (by \<open>writeUInt8\<close>), although its header count is 0 and its path plus
  headers take 0 bytes.\<close>

theorem send_rejects_long_body:
  "signal defaultEnv listenClient (emptyRequest\<lparr>body := Some (replicate 256 0)\<rparr>)
     = Inl RangeError
   \<and> keysLength (headers (emptyRequest\<lparr>body := Some (replicate 256 0)\<rparr>)) = 0
   \<and> pathBuffer (emptyRequest\<lparr>body := Some (replicate 256 0), method' := Some SIGNAL\<rparr>) = []
   \<and> headerBuffer (emptyRequest\<lparr>body := Some (replicate 256 0), method' := Some SIGNAL\<rparr>)
       = Inr []
   \<and> \<not> gtNum 0 (subNum (bufferSize listenClient) 8)"
  by (simp add: signal_def send_defs Let_def)

subsection \<open>The writer loop at the boundary\<close>

text \<open>
  C3 (the code departs from the claim). A \<open>STREAMING\<close> request whose path takes 1016 bytes
  with its terminator passes the check of \<open>send\<close> at buffer size 1024, and its prefix
  (2 control bytes, 2 id bytes, the path, 4 length bytes) is 1024 bytes long. Every write
  then carries the prefix and no body byte: with a body of one byte the writer loop never
  returns.
\<close>

theorem streaming_boundary_never_returns:
  "streaming defaultEnv listenClient
     (emptyRequest\<lparr>id' := Some 1, path := Some (replicate 1015 97), body := Some [65]\<rparr>) None
   = Inr None"
proof -
  let ?r = "emptyRequest\<lparr>id' := Some 1, path := Some (replicate 1015 97), body := Some [65],
              method' := Some STREAMING\<rparr>"
  have "prefixData defaultEnv listenClient ?r
      = Inr (?r\<lparr>version := Some 1\<rparr>,
             [7, 17] @ [0, 1] @ (replicate 1015 97 @ [3]) @ [] @ [0, 0, 0, 1], [65])"
    by (simp add: send_defs Let_def)
  from send_never_returns [OF this] show ?thesis
    by (simp add: streaming_def listenClient_def)
qed

subsection \<open>Alive requests\<close>

text \<open>
  C6 (the code departs from the claim). On a fresh connection, a buffer that holds an alive
  request followed by a complete minimal \<open>SIGNAL\<close> is answered with an \<open>ALIVE_RESPONSE\<close>
  (the two bytes \<open>04 18\<close>) and the keep-alive timer is reset, but the handler returns
  there: the two bytes of the signal are not processed as the next frame and are not kept
  in \<open>remainBuffer\<close>, whereas the same signal arriving alone reaches the middleware.
\<close>

theorem alive_request_drops_trailing_frame:
  "onData defaultEnv listenClient [0x04, 0x14, 0x04, 0x04]
     = Inr (listenClient\<lparr>lockedForWrite := True\<rparr>,
            [Write [0x04, 0x18], ScheduleNextAliveRequest])
   \<and> remainBuffer (listenClient\<lparr>lockedForWrite := True\<rparr>) = None
   \<and> onData defaultEnv listenClient [0x04, 0x04]
     = Inr (listenClient,
            [Middleware \<lparr> version = Some 1, method' = Some SIGNAL, id' = Some 0, path = None,
                          headers = None, body = Some [], bodyLength = 0, totalBodyLength = 0,
                          parts = 0 \<rparr>,
             ScheduleNextAliveRequest])"
proof -
  have a: "onData defaultEnv listenClient [0x04, 0x14, 0x04, 0x04]
     = Inr (listenClient\<lparr>lockedForWrite := True\<rparr>,
            [Write [0x04, 0x18], ScheduleNextAliveRequest])"
    by (simp add: onData_alive_request) (simp add: listenClient_def)
  have d: "decode listenClient [0x04, 0x04]
     = Inr (\<lparr> version = Some 1, method' = Some SIGNAL, id' = Some 0, path = None,
               headers = None, body = Some [], bodyLength = 0, totalBodyLength = 0,
               parts = 0 \<rparr>, True, listenClient, [])"
    by (simp add: decode_defs)
  have s: "onData defaultEnv listenClient [0x04, 0x04]
     = Inr (listenClient,
            [Middleware \<lparr> version = Some 1, method' = Some SIGNAL, id' = Some 0, path = None,
                          headers = None, body = Some [], bodyLength = 0, totalBodyLength = 0,
                          parts = 0 \<rparr>,
             ScheduleNextAliveRequest])"
    by (simp add: onData_def d) (simp add: dispatch_def listenClient_def)
  show ?thesis
    using a s by (simp add: listenClient_def)
qed

subsection \<open>Buffer-size requests\<close>

text \<open>
  C7 (the code departs from the claim). On a fresh connection, a \<open>BUFFER_SIZE_REQUEST\<close>
  whose four body bytes are 0 sets \<open>bufferSize\<close> to 0, not to 1024; the
  \<open>BUFFER_SIZE_RESPONSE\<close> is then rejected by the check of \<open>send\<close> (0 bytes of path and
  headers exceed \<open>0 - 8\<close>), so nothing is written.
\<close>

theorem bufferSize_zero_request:
  "onData env listenClient [0x04, 0x1D, 0x04, 0, 0, 0, 0] =
   Inr (listenClient\<lparr>bufferSize := Num 0\<rparr>,
        [MultiPartTimeout (Some 0), ScheduleNextAliveRequest,
         SendRejected PathAndHeadersTooBig])"
proof -
  let ?r = "\<lparr> version = Some 1, method' = Some BUFFER_SIZE_REQUEST, id' = Some 0, path = None,
     headers = None, body = Some [0, 0, 0, 0], bodyLength = 4, totalBodyLength = 4,
     parts = 0 \<rparr>"
  have d: "decode listenClient [0x04, 0x1D, 0x04, 0, 0, 0, 0]
      = Inr (?r, True, listenClient, [MultiPartTimeout (Some 0)])"
    by (simp add: decode_defs) (simp add: body_defs listenClient_def)
  have s: "bufferSizeResponseStart env (listenClient\<lparr>bufferSize := Num 0\<rparr>) ?r
      = Inl PathAndHeadersTooBig"
    by (simp add: bufferSizeResponseStart_def sendStart_def send_defs Let_def)
  have b: "bufferSizeOf [0, 0, 0, 0] = Num 0"
    by (simp add: bufferSizeOf_def byteAt_def shl32_def toInt32_def)
  have p: "dispatch listenClient ?r True = (listenClient, [])"
    by (simp add: dispatch_def listenClient_def)
  show ?thesis
    by (simp add: onData_def d s [simplified] b p [simplified] unawaited_def Let_def)
qed

text \<open>
  C10. For every buffer of at least two bytes whose method field is \<open>BUFFER_SIZE_REQUEST\<close>
  and whose \<open>BODY\<close> flag is clear, if \<open>onData\<close> returns (it throws only when the id or the
  header count is cut off), the decoded body is empty, so each of the reads \<open>body[0]\<close> to
  \<open>body[3]\<close> is outside it and yields \<open>undefined\<close>, and the connection's \<open>bufferSize\<close>
  becomes \<open>NaN\<close>.
\<close>

theorem bufferSize_request_without_body:
  assumes "2 \<le> length buffer" and "buffer ! 1 div 4 = BUFFER_SIZE_REQUEST"
    and "buffer ! 1 AND IOT_LSCB_BODY = 0" and "onData env c buffer = Inr (c', evs)"
  shows "\<exists>rq fin c1 evs1. decode c buffer = Inr (rq, fin, c1, evs1) \<and> body rq = Some []
           \<and> (\<forall>i. byteAt (the (body rq)) i = None)
           \<and> bufferSize c' = bufferSizeOf (the (body rq)) \<and> bufferSize c' = NaN"
proof -
  from assms obtain rq fin c1 evs1 where d: "decode c buffer = Inr (rq, fin, c1, evs1)"
    by (auto simp: onData_def split: sum.splits)
  from decode_without_body [OF assms(3) d] assms(2)
  have b: "body rq = Some []" and m: "method' rq = Some BUFFER_SIZE_REQUEST"
    by auto
  have n: "bufferSizeOf [] = NaN"
    by (simp add: bufferSizeOf_def byteAt_def)
  from assms(1,2,4) d b m have "bufferSize c' = bufferSizeOf []"
    by (auto simp: onData_def Let_def bufferSizeResponseStart_def)
  with d b n show ?thesis
    by (auto simp: byteAt_def)
qed

theorem bufferSize_request_without_body_witness:
  "2 \<le> length [0x04, 0x1C :: nat] \<and> [0x04, 0x1C :: nat] ! 1 div 4 = BUFFER_SIZE_REQUEST
   \<and> [0x04, 0x1C :: nat] ! 1 AND IOT_LSCB_BODY = 0
   \<and> onData defaultEnv listenClient [0x04, 0x1C]
       = Inr (listenClient\<lparr>bufferSize := NaN, lockedForWrite := True\<rparr>,
              [ScheduleNextAliveRequest, Write [0x04, 0x21, 0x00]])
   \<and> bufferSize (listenClient\<lparr>bufferSize := NaN, lockedForWrite := True\<rparr>) = NaN"
proof -
  let ?r = "\<lparr> version = Some 1, method' = Some BUFFER_SIZE_REQUEST, id' = Some 0, path = None,
     headers = None, body = Some [], bodyLength = 0, totalBodyLength = 0, parts = 0 \<rparr>"
  have d: "decode listenClient [0x04, 0x1C] = Inr (?r, True, listenClient, [])"
    by (simp add: decode_defs)
  have s: "bufferSizeResponseStart defaultEnv (listenClient\<lparr>bufferSize := NaN\<rparr>) ?r
      = Inr (listenClient\<lparr>bufferSize := NaN, lockedForWrite := True\<rparr>,
             [Write [0x04, 0x21, 0x00]])"
    by (simp add: bufferSizeResponseStart_def sendStart_def send_defs Let_def)
  have b: "bufferSizeOf [] = NaN"
    by (simp add: bufferSizeOf_def byteAt_def)
  have p: "dispatch listenClient ?r True = (listenClient, [])"
    by (simp add: dispatch_def listenClient_def)
  have run: "onData defaultEnv listenClient [0x04, 0x1C]
       = Inr (listenClient\<lparr>bufferSize := NaN, lockedForWrite := True\<rparr>,
              [ScheduleNextAliveRequest, Write [0x04, 0x21, 0x00]])"
    by (simp add: onData_def d s [simplified] b p [simplified] unawaited_def Let_def)
  from bufferSize_request_without_body [OF _ _ _ run] run show ?thesis
    by simp
qed

subsection \<open>A pending alive request and frames without id\<close>








subsection \<open>The reassembly table\<close>









text \<open>A buffer that ends before its length field: no body byte is declared, the buffer
  ends one byte before the body would start, and an entry with \<open>received = -1\<close> is
  left.\<close>

lemma cut_off_length_field:
  "onData defaultEnv listenClient [0x04, 0x05]
     = Inr (listenClient\<lparr>multiPartControl := (multiPartControl listenClient)
               (Some 0 \<mapsto> \<lparr> mparts = 1, received = - 1, mtimeout = IOT_MULTIPART_TIMEOUT \<rparr>)\<rparr>,
            [MultiPartTimeout (Some 0),
             Middleware \<lparr> version = Some 1, method' = Some SIGNAL, id' = Some 0, path = None,
                          headers = None, body = Some [], bodyLength = - 1,
                          totalBodyLength = 0, parts = 0 \<rparr>,
             ScheduleNextAliveRequest])
   \<and> bodyField [0x04, 0x05] = Inr (0, 3, 0)"
proof -
  let ?r = "\<lparr> version = Some 1, method' = Some SIGNAL, id' = Some 0, path = None,
              headers = None, body = Some [], bodyLength = - 1,
              totalBodyLength = 0, parts = 0 \<rparr>"
  let ?c = "listenClient\<lparr>multiPartControl := (multiPartControl listenClient)
               (Some 0 \<mapsto> \<lparr> mparts = 1, received = - 1, mtimeout = IOT_MULTIPART_TIMEOUT \<rparr>)\<rparr>"
  have d: "decode listenClient [0x04, 0x05] = Inr (?r, False, ?c, [MultiPartTimeout (Some 0)])"
    by (simp add: decode_defs) (simp add: body_defs listenClient_def)
  have p: "dispatch ?c ?r False = (?c, [Middleware ?r])"
    by (simp add: dispatch_def listenClient_def)
  have f: "bodyField [0x04, 0x05] = Inr (0, 3, 0)"
    by (simp add: bodyField_def decode_defs bodyLengthSize_def byteAt_def)
  show ?thesis
    by (simp add: onData_def d [simplified] p [simplified] f Let_def)
qed



subsection \<open>Decoding what \<open>send\<close> wrote\<close>




text \<open>The key \<open>__proto__\<close> is not stored, and an array index goes before the other
  keys.\<close>

lemma assign_examples:
  "assign [] (ascii ''__proto__'') v = []"
  "assign [(ascii ''b'', x)] (ascii ''a'') v = [(ascii ''b'', x), (ascii ''a'', v)]"
  "assign [(ascii ''b'', x)] (ascii ''b'') v = [(ascii ''b'', v)]"
  "assign [(ascii ''b'', x)] (ascii ''7'') v = [(ascii ''7'', v), (ascii ''b'', x)]"
  "assign [(ascii ''7'', x)] (ascii ''10'') v = [(ascii ''7'', x), (ascii ''10'', v)]"
  "assign [(ascii ''7'', x)] (ascii ''07'') v = [(ascii ''7'', x), (ascii ''07'', v)]"
  by (simp_all add: assign_def arrayIndex_def decimal_def ascii_def)





























lemma written_append [simp]: "written (xs @ ys) = written xs @ written ys"
  by (induction xs rule: written.induct) auto

lemma asReceived_fields [simp]:
  "method' (asReceived r) = method' r" "body (asReceived r) = body r"
  "version (asReceived r) = version r"
  by (simp_all add: asReceived_def)


lemma id_update_pieces [simp]:
  "sendMSCB (r\<lparr>id' := i\<rparr>) = sendMSCB r"
  "sendLSCB (r\<lparr>id' := i\<rparr>) = sendLSCB r"
  "pathBuffer (r\<lparr>id' := i\<rparr>) = pathBuffer r"
  "headerBuffer (r\<lparr>id' := i\<rparr>) = headerBuffer r"
  "bodyLengthBuffer env (r\<lparr>id' := i\<rparr>) = bodyLengthBuffer env r"
  by (simp_all add: sendMSCB_def sendLSCB_def pathBuffer_def headerBuffer_def
        bodyLengthBuffer_def methodNum_def Let_def cong: if_cong split: option.splits)


lemma writeBodyPart_extends:
  assumes "writeBodyPart bs p b i n evs = Some y"
  shows "\<exists>x. fst y = evs @ x \<and> written x \<noteq> []"
proof (rule writeBodyPart.raw_induct
        [where P = "\<lambda>bs p b i n evs y. \<exists>x. fst y = evs @ x \<and> written x \<noteq> []",
         OF _ assms], goal_cases)
  case (1 f bs p b i n evs y)
  show ?case
  proof (cases "int (length b) \<le> bodyUntilIndex bs p b i")
    case True
    with 1(2) show ?thesis by auto
  next
    case False
    with 1(2) have "f bs p b (bodyUntilIndex bs p b i) (n + 1)
        (evs @ (if n > 1 then [ScheduleNextAliveRequest] else [])
          @ [Write (p @ subarray b i (bodyUntilIndex bs p b i))]) = Some y"
      by simp
    from 1(1) [OF this] obtain x where "fst y = (evs @ (if n > 1 then [ScheduleNextAliveRequest] else [])
          @ [Write (p @ subarray b i (bodyUntilIndex bs p b i))]) @ x"
      by blast
    then show ?thesis
      by (intro exI [of _ "(if n > 1 then [ScheduleNextAliveRequest] else [])
          @ [Write (p @ subarray b i (bodyUntilIndex bs p b i))] @ x"]) auto
  qed
qed



text \<open>\<open>sendStart\<close> is the beginning of \<open>send\<close>: the same exceptions, and the first write
  of a send that resolves.\<close>

lemma sendStart_throws: "(sendStart env c r rr = Inl e) = (send env c r rr = Inl e)"
  by (auto simp: sendStart_def send_def Let_def split: sum.splits prod.splits)

lemma writeBodyPart_first:
  assumes "writeBodyPart bs p b 0 0 [] = Some (evs, n)"
  shows "\<exists>rest. evs = Write (p @ subarray b 0 (bodyUntilIndex bs p b 0)) # rest"
proof (cases "int (length b) \<le> bodyUntilIndex bs p b 0")
  case True
  then show ?thesis
    using assms writeBodyPart_last [OF True, of 0 "[]"] by auto
next
  case False
  then have "writeBodyPart bs p b (bodyUntilIndex bs p b 0) 1
       [Write (p @ subarray b 0 (bodyUntilIndex bs p b 0))] = Some (evs, n)"
    using assms writeBodyPart_more [of bs p b 0 0 "[]"] by simp
  from writeBodyPart_extends [OF this] show ?thesis
    by auto
qed

lemma send_begins_with_sendStart:
  assumes "send env c r rr = Inr (Some (c', r', evs))"
  shows "\<exists>w rest. evs = Write w # rest
           \<and> sendStart env c r rr = Inr (c'\<lparr>lockedForWrite := True\<rparr>, [Write w])"
proof -
  from assms obtain rq pre b where p: "prefixData env c r = Inr (rq, pre, b)"
    by (auto simp: send_def split: sum.splits)
  define c1 where "c1 = (case rr of None \<Rightarrow> c
      | Some d \<Rightarrow> c\<lparr>requestResponse := (requestResponse c)(id' rq \<mapsto> pending env rq d)\<rparr>)"
  from assms p obtain es n where
      l: "\<not> lockedForWrite c1" and w: "writeBodyPart (bufferSize c1) pre b 0 0 [] = Some (es, n)"
      and r: "c' = c1" "evs = es @ (if requestResponse c1 (id' rq) \<noteq> None
                                   then [StartRequestResponseTimeout (id' rq)] else [])"
    by (auto simp: send_def Let_def c1_def split: option.splits if_splits)
  from writeBodyPart_first [OF w] obtain rest
    where "es = Write (pre @ subarray b 0 (bodyUntilIndex (bufferSize c1) pre b 0)) # rest"
    by blast
  then show ?thesis
    using p l r by (auto simp: sendStart_def Let_def c1_def [symmetric])
qed

lemma written_sendTail [simp]:
  "written (if c then [StartRequestResponseTimeout i] else []) = []"
  by simp





text \<open>A header named \<open>__proto__\<close> is written by the sender and not stored by the receiver,
  whose request has an empty \<open>headers\<close> object and is written without headers.\<close>

lemma proto_header_is_lost:
  "encode defaultEnv listenClient
     (emptyRequest\<lparr>version := Some 1, method' := Some SIGNAL,
        headers := Some [(ascii ''__proto__'', ascii ''x'')], body := Some (ascii ''hi'')\<rparr>)
     = Some [[0x04, 0x07, 0x01, 95, 95, 112, 114, 111, 116, 111, 95, 95, 0x1E, 120, 0x03,
              0x02, 104, 105]]
   \<and> decode listenClient [0x04, 0x07, 0x01, 95, 95, 112, 114, 111, 116, 111, 95, 95, 0x1E, 120,
              0x03, 0x02, 104, 105]
     = Inr (\<lparr> version = Some 1, method' = Some SIGNAL, id' = Some 0, path = None,
               headers = Some [], body = Some [104, 105], bodyLength = 2,
               totalBodyLength = 2, parts = 0 \<rparr>, True, listenClient,
            [MultiPartTimeout (Some 0)])
   \<and> encode defaultEnv listenClient
        \<lparr> version = Some 1, method' = Some SIGNAL, id' = Some 0, path = None,
          headers = Some [], body = Some [104, 105], bodyLength = 2,
          totalBodyLength = 2, parts = 0 \<rparr>
     = Some [[0x04, 0x05, 0x02, 104, 105]]"
proof -
  have e: "encode defaultEnv listenClient
     (emptyRequest\<lparr>version := Some 1, method' := Some SIGNAL,
        headers := Some [(ascii ''__proto__'', ascii ''x'')], body := Some (ascii ''hi'')\<rparr>)
     = Some [[0x04, 0x07, 0x01, 95, 95, 112, 114, 111, 116, 111, 95, 95, 0x1E, 120, 0x03,
              0x02, 104, 105]]"
    apply (simp add: encode_def send_defs ascii_def)
    apply (subst writeBodyPart.simps)
    apply (simp add: send_defs)
    done
  have h: "decodeHeaders [0x04, 0x07, 0x01, 95, 95, 112, 114, 111, 116, 111, 95, 95, 0x1E, 120,
              0x03, 0x02, 104, 105] 0x07 1 = Inr (Some [], 14)"
    apply (simp add: decodeHeaders_def readUInt8_def)
    apply (subst headerLoop.simps)
    apply (simp add: indexOf_def subarray_def clampIndex_def assign_def ascii_def Let_def)
    apply (subst headerLoop.simps)
    apply (simp add: indexOf_def Let_def)
    done
  have d: "decode listenClient [0x04, 0x07, 0x01, 95, 95, 112, 114, 111, 116, 111, 95, 95, 0x1E,
              120, 0x03, 0x02, 104, 105]
     = Inr (\<lparr> version = Some 1, method' = Some SIGNAL, id' = Some 0, path = None,
               headers = Some [], body = Some [104, 105], bodyLength = 2,
               totalBodyLength = 2, parts = 0 \<rparr>, True, listenClient,
            [MultiPartTimeout (Some 0)])"
    by (simp add: decode_def decodeId_def decodePath_def h [simplified])
       (simp add: body_defs listenClient_def)
  have b: "encode defaultEnv listenClient
        \<lparr> version = Some 1, method' = Some SIGNAL, id' = Some 0, path = None,
          headers = Some [], body = Some [104, 105], bodyLength = 2,
          totalBodyLength = 2, parts = 0 \<rparr>
     = Some [[0x04, 0x05, 0x02, 104, 105]]"
    apply (simp add: encode_def send_defs)
    apply (subst writeBodyPart.simps)
    apply (simp add: send_defs)
    done
  show ?thesis
    using e d b by simp
qed

subsection \<open>Frames and the data events that carry them\<close>

text \<open>
  C2 (the code departs from the claim). On a fresh connection, the stream of a \<open>SIGNAL\<close>
  with body \<open>hi\<close> (\<open>04 05 02 68 69\<close>) followed by a minimal \<open>SIGNAL\<close> (\<open>04 04\<close>)
  delivers two requests when each frame arrives in its own data event, but only the first
  when both arrive in one: the second frame is put in \<open>remainBuffer\<close> and is looked at only
  when a later data event arrives. And the two bytes of the minimal \<open>SIGNAL\<close>, arriving
  one by one, deliver nothing and are not kept, whereas in one piece they deliver the
  request.
\<close>

theorem split_changes_delivery:
  "readAll defaultEnv listenClient [[0x04, 0x05, 0x02, 104, 105, 0x04, 0x04]]
     = Inr (listenClient\<lparr>remainBuffer := Some [0x04, 0x04]\<rparr>,
            [MultiPartTimeout (Some 0),
             Middleware \<lparr> version = Some 1, method' = Some SIGNAL, id' = Some 0, path = None,
                          headers = None, body = Some [104, 105], bodyLength = 2,
                          totalBodyLength = 2, parts = 0 \<rparr>,
             ScheduleNextAliveRequest])
   \<and> readAll defaultEnv listenClient [[0x04, 0x05, 0x02, 104, 105], [0x04, 0x04]]
     = Inr (listenClient,
            [MultiPartTimeout (Some 0),
             Middleware \<lparr> version = Some 1, method' = Some SIGNAL, id' = Some 0, path = None,
                          headers = None, body = Some [104, 105], bodyLength = 2,
                          totalBodyLength = 2, parts = 0 \<rparr>,
             ScheduleNextAliveRequest,
             Middleware \<lparr> version = Some 1, method' = Some SIGNAL, id' = Some 0, path = None,
                          headers = None, body = Some [], bodyLength = 0, totalBodyLength = 0,
                          parts = 0 \<rparr>,
             ScheduleNextAliveRequest])
   \<and> readAll defaultEnv listenClient [[0x04], [0x04]] = Inr (listenClient, [])
   \<and> readAll defaultEnv listenClient [[0x04, 0x04]]
     = Inr (listenClient,
            [Middleware \<lparr> version = Some 1, method' = Some SIGNAL, id' = Some 0, path = None,
                          headers = None, body = Some [], bodyLength = 0, totalBodyLength = 0,
                          parts = 0 \<rparr>,
             ScheduleNextAliveRequest])"
proof -
  let ?r1 = "\<lparr> version = Some 1, method' = Some SIGNAL, id' = Some 0, path = None,
               headers = None, body = Some [104, 105], bodyLength = 2,
               totalBodyLength = 2, parts = 0 \<rparr>"
  let ?r2 = "\<lparr> version = Some 1, method' = Some SIGNAL, id' = Some 0, path = None,
               headers = None, body = Some [], bodyLength = 0, totalBodyLength = 0,
               parts = 0 \<rparr>"
  let ?k = "listenClient\<lparr>remainBuffer := Some [0x04, 0x04]\<rparr>"
  have r: "remainBuffer listenClient = None"
    by (simp add: listenClient_def)
  have d12: "decode listenClient [0x04, 0x05, 0x02, 104, 105, 0x04, 0x04]
      = Inr (?r1, True, ?k, [MultiPartTimeout (Some 0)])"
    by (simp add: decode_defs) (simp add: body_defs listenClient_def)
  have p12: "dispatch ?k ?r1 True = (?k, [Middleware ?r1])"
    by (simp add: dispatch_def listenClient_def)
  have o12: "onData defaultEnv listenClient [0x04, 0x05, 0x02, 104, 105, 0x04, 0x04]
      = Inr (?k, [MultiPartTimeout (Some 0), Middleware ?r1, ScheduleNextAliveRequest])"
    by (simp add: onData_def d12 [simplified] p12 [simplified] Let_def)
  have d1: "decode listenClient [0x04, 0x05, 0x02, 104, 105]
      = Inr (?r1, True, listenClient, [MultiPartTimeout (Some 0)])"
    by (simp add: decode_defs) (simp add: body_defs listenClient_def)
  have p1: "dispatch listenClient ?r1 True = (listenClient, [Middleware ?r1])"
    by (simp add: dispatch_def listenClient_def)
  have o1: "onData defaultEnv listenClient [0x04, 0x05, 0x02, 104, 105]
      = Inr (listenClient,
             [MultiPartTimeout (Some 0), Middleware ?r1, ScheduleNextAliveRequest])"
    by (simp add: onData_def d1 [simplified] p1 [simplified] Let_def)
  have d2: "decode listenClient [0x04, 0x04] = Inr (?r2, True, listenClient, [])"
    by (simp add: decode_defs)
  have p2: "dispatch listenClient ?r2 True = (listenClient, [Middleware ?r2])"
    by (simp add: dispatch_def listenClient_def)
  have o2: "onData defaultEnv listenClient [0x04, 0x04]
      = Inr (listenClient, [Middleware ?r2, ScheduleNextAliveRequest])"
    by (simp add: onData_def d2 [simplified] p2 [simplified] Let_def)
  have o0: "onData defaultEnv listenClient [0x04] = Inr (listenClient, [])"
    by (simp add: onData_def)
  show ?thesis
    by (simp add: readClient_def r o12 [simplified] o1 [simplified] o2 [simplified]
          o0 [simplified])
qed

end
